theory Spec2Isabelle
  imports Main
begin

section \<open>The Autocomplete form element\<close>

text \<open>
  The repository holds one React component, \<^verbatim>\<open>Autocomplete\<close> in
  \<^verbatim>\<open>src/elements/Autocomplete.tsx\<close>. The source file carries two revisions of the
  component; the value adapter, the event handlers and the guards on the clear button and
  on the chips are the same text in both, and the later revision adds the Popper, the
  themed portal container and the computed listbox width. The model follows the later
  revision.

  React state is a record that the handlers return updated; the calls the component makes
  on the host (\<^verbatim>\<open>setValue\<close>, \<^verbatim>\<open>raiseEvent\<close>) are collected, in order, in a list; a
  caller-supplied function that throws returns \<open>Inl\<close>.
\<close>

subsection \<open>Values\<close>

text \<open>
  \<^verbatim>\<open>type Primitive = string | number\<close>. The component never computes with a number, it
  only stores, compares and forwards it.
\<close>

datatype Primitive = PString string | PNumber int

text \<open>
  \<^verbatim>\<open>Primitive | Primitive[] | null\<close>, the type parameter of \<^verbatim>\<open>FormElementProps\<close>.
\<close>

datatype FieldValue = Scalar Primitive | Array "Primitive list" | Null

fun isArray :: "FieldValue \<Rightarrow> bool" where
  "isArray (Array xs) = True"
| "isArray (Scalar p) = False"
| "isArray Null = False"

fun isScalarOrNull :: "FieldValue \<Rightarrow> bool" where
  "isScalarOrNull (Array xs) = False"
| "isScalarOrNull (Scalar p) = True"
| "isScalarOrNull Null = True"

text \<open>\<^verbatim>\<open>a ?? b\<close> on field values: \<^verbatim>\<open>b\<close> when \<^verbatim>\<open>a\<close> is null, else \<^verbatim>\<open>a\<close>.\<close>

fun nullish :: "FieldValue \<Rightarrow> FieldValue \<Rightarrow> FieldValue" where
  "nullish Null b = b"
| "nullish (Scalar p) b = Scalar p"
| "nullish (Array xs) b = Array xs"

text \<open>
  \<^verbatim>\<open>hookValue\<close>: in multi mode an array is kept, \<^verbatim>\<open>null\<close> becomes \<^verbatim>\<open>[]\<close> and anything
  else is wrapped; in single mode an array gives \<^verbatim>\<open>value[0] ?? null\<close> (\<^verbatim>\<open>value[0]\<close> of
  the empty array is \<^verbatim>\<open>undefined\<close>, hence \<^verbatim>\<open>null\<close>) and anything else is kept.
\<close>

fun hookValue :: "bool \<Rightarrow> FieldValue \<Rightarrow> FieldValue" where
  "hookValue True (Array xs) = Array xs"
| "hookValue True Null = Array []"
| "hookValue True (Scalar p) = Array [p]"
| "hookValue False (Array xs) = (case xs of [] \<Rightarrow> Null | x # rest \<Rightarrow> Scalar x)"
| "hookValue False (Scalar p) = Scalar p"
| "hookValue False Null = Null"

subsection \<open>Caller-supplied functions and the DOM\<close>

text \<open>
  A value thrown by a caller-supplied function. The three optional helpers of the props
  are JavaScript functions and may throw instead of returning.
\<close>

datatype error = Thrown string

type_synonym FilterOptions = "Primitive list \<Rightarrow> string \<Rightarrow> error + Primitive list"
type_synonym GetOptionDisabled = "Primitive \<Rightarrow> error + bool"
type_synonym GroupBy = "Primitive \<Rightarrow> error + string option"

text \<open>
  An element of the document as the component reads it: its computed style (custom
  property name and value; \<^verbatim>\<open>getPropertyValue\<close> of a name that is not set is the empty
  string), its \<^verbatim>\<open>clientWidth\<close> and its \<^verbatim>\<open>parentElement\<close>. The parent chain of a DOM
  node is finite, which the datatype expresses.
\<close>

datatype Element =
  Element (nodeId: nat) (computedStyle: "(string \<times> string) list") (clientWidth: int)
    (parentElement: "Element option")

text \<open>
  \<^verbatim>\<open>el.ownerDocument\<close>: \<^verbatim>\<open>defaultView\<close> may be null (a document without a window), and
  then \<^verbatim>\<open>doc.defaultView?.getComputedStyle(el)\<close> is \<^verbatim>\<open>undefined\<close> for every element.
\<close>

record Document =
  hasDefaultView :: bool
  body :: Element

definition getPropertyValue :: "(string \<times> string) list \<Rightarrow> string \<Rightarrow> string" where
  "getPropertyValue cs name = (case map_of cs name of None \<Rightarrow> [] | Some v \<Rightarrow> v)"

text \<open>
  \<^verbatim>\<open>String.prototype.trim\<close> removes white space at both ends. Of the characters
  JavaScript counts as white space, those that fit a \<open>char\<close> are tab, line feed, vertical
  tab, form feed, carriage return, space and no-break space.
\<close>

definition isWhiteSpace :: "char \<Rightarrow> bool" where
  "isWhiteSpace c =
     (c = CHR 0x09 \<or> c = CHR 0x0A \<or> c = CHR 0x0B \<or> c = CHR 0x0C \<or> c = CHR 0x0D
      \<or> c = CHR 0x20 \<or> c = CHR 0xA0)"

definition trim :: "string \<Rightarrow> string" where
  "trim s = rev (dropWhile isWhiteSpace (rev (dropWhile isWhiteSpace s)))"

subsection \<open>Props and state\<close>

text \<open>
  The props after destructuring, that is with the defaults of the destructuring pattern
  applied (\<^verbatim>\<open>disabled = false\<close>, \<^verbatim>\<open>options = []\<close>, \<^verbatim>\<open>multiple = false\<close>,
  \<^verbatim>\<open>clearable = true\<close>, ...). A prop without a default is optional. \<^verbatim>\<open>raiseEvent\<close> is
  called as \<^verbatim>\<open>raiseEvent?.(name, payload)\<close>, so the model records whether the host
  supplied it; \<^verbatim>\<open>setValue\<close> is called directly. \<^verbatim>\<open>className\<close> and \<^verbatim>\<open>style\<close> are
  passed to the root element unchanged and are left out. The prop \<^verbatim>\<open>value\<close> is the field
  \<open>fieldValue\<close>.
\<close>

record Props =
  fieldValue :: FieldValue
  hasRaiseEvent :: bool
  disabled :: bool
  options :: "Primitive list"
  multiple :: bool
  freeSolo :: bool
  openOnFocus :: bool
  clearable :: bool
  selectOnFocus :: "bool option"
  clearOnBlur :: "bool option"
  handleHomeEndKeys :: "bool option"
  filterOptions :: "FilterOptions option"
  getOptionDisabled :: "GetOptionDisabled option"
  groupBy :: "GroupBy option"
  placeholder :: string
  label :: "string option"
  helperText :: "string option"
  autoFocus :: bool
  readOnly :: bool
  listboxMaxHeight :: int
  listboxWidth :: "int option"

text \<open>
  The five \<^verbatim>\<open>useState\<close> cells of the component; the cell \<^verbatim>\<open>open\<close> is the field
  \<open>popupOpen\<close>.
\<close>

record State =
  popupOpen :: bool
  hoveredIndex :: "nat option"
  input :: string
  anchorEl :: "Element option"
  portalContainer :: "Element option"

definition initialState :: State where
  "initialState =
     \<lparr>popupOpen = False, hoveredIndex = None, input = [], anchorEl = None,
      portalContainer = None\<rparr>"

text \<open>
  What the host observes: the calls of \<^verbatim>\<open>setValue\<close> and of \<^verbatim>\<open>raiseEvent\<close>, in the
  order in which the component makes them. An event payload is \<^verbatim>\<open>{ value: ... }\<close> or
  \<^verbatim>\<open>{ input: ... }\<close>.
\<close>

datatype Payload = ValuePayload FieldValue | InputPayload string

datatype HostCall = SetValue FieldValue | RaiseEvent string Payload

type_synonym Eff = "State \<times> HostCall list"

definition setValue :: "FieldValue \<Rightarrow> Eff \<Rightarrow> Eff" where
  "setValue v eff = (fst eff, snd eff @ [SetValue v])"

definition emit :: "Props \<Rightarrow> string \<Rightarrow> Payload \<Rightarrow> Eff \<Rightarrow> Eff" where
  "emit props name payload eff =
     (if hasRaiseEvent props then (fst eff, snd eff @ [RaiseEvent name payload]) else eff)"

definition setOpen :: "bool \<Rightarrow> Eff \<Rightarrow> Eff" where
  "setOpen b eff = ((fst eff)\<lparr>popupOpen := b\<rparr>, snd eff)"

definition setInput :: "string \<Rightarrow> Eff \<Rightarrow> Eff" where
  "setInput s eff = ((fst eff)\<lparr>input := s\<rparr>, snd eff)"

subsection \<open>Handlers\<close>

text \<open>
  The handlers are closures of one render: \<^verbatim>\<open>onOpen\<close> and \<^verbatim>\<open>onClose\<close> report the
  \<^verbatim>\<open>input\<close> of the render that created them (the argument \<open>rendered\<close>), whatever has
  been set since.

  \<^verbatim>\<open>onChange\<close>: \<^verbatim>\<open>out\<close> is \<^verbatim>\<open>newVal\<close> in multi mode and \<^verbatim>\<open>newVal ?? null\<close> in single
  mode; then \<^verbatim>\<open>setValue(out)\<close>, \<^verbatim>\<open>emit("change", { value: out })\<close>, \<^verbatim>\<open>setInput("")\<close>.
\<close>

definition onChange :: "Props \<Rightarrow> FieldValue \<Rightarrow> Eff \<Rightarrow> Eff" where
  "onChange props newVal eff =
     (let out = (if multiple props then newVal else nullish newVal Null)
      in setInput [] (emit props ''change'' (ValuePayload out) (setValue out eff)))"

definition onInputChange :: "Props \<Rightarrow> string \<Rightarrow> Eff \<Rightarrow> Eff" where
  "onInputChange props newInput eff =
     emit props ''input'' (ValuePayload (Scalar (PString newInput))) (setInput newInput eff)"

definition onOpen :: "Props \<Rightarrow> State \<Rightarrow> Eff \<Rightarrow> Eff" where
  "onOpen props rendered eff =
     emit props ''open'' (InputPayload (input rendered)) (setOpen True eff)"

definition onClose :: "Props \<Rightarrow> State \<Rightarrow> Eff \<Rightarrow> Eff" where
  "onClose props rendered eff =
     emit props ''close'' (InputPayload (input rendered)) (setOpen False eff)"

definition onClickInput :: "Props \<Rightarrow> Eff \<Rightarrow> Eff" where
  "onClickInput props eff =
     (if disabled props then eff else if readOnly props then eff else setOpen True eff)"

text \<open>
  The \<^verbatim>\<open>onClick\<close> of the clear button: \<^verbatim>\<open>cleared\<close> is \<^verbatim>\<open>[]\<close> in multi mode and
  \<^verbatim>\<open>null\<close> in single mode; then \<^verbatim>\<open>setValue(cleared)\<close>, \<^verbatim>\<open>setInput("")\<close>,
  \<^verbatim>\<open>emit("clear", ...)\<close>, \<^verbatim>\<open>emit("change", ...)\<close>.
\<close>

definition cleared :: "Props \<Rightarrow> FieldValue" where
  "cleared props = (if multiple props then Array [] else Null)"

definition clearClick :: "Props \<Rightarrow> Eff \<Rightarrow> Eff" where
  "clearClick props eff =
     emit props ''change'' (ValuePayload (cleared props))
       (emit props ''clear'' (ValuePayload (cleared props))
         (setInput [] (setValue (cleared props) eff)))"

subsection \<open>The interaction engine\<close>

text \<open>
  The object literal passed to \<^verbatim>\<open>useAutocomplete\<close>, key by key. \<^verbatim>\<open>getOptionLabel\<close>
  (\<^verbatim>\<open>String\<close>) is left out. \<open>cfg_getOptionDisabled\<close> is the hook's own setting of that
  name: the object literal has no such key, so the hook receives \<^verbatim>\<open>undefined\<close> for it.
\<close>

record HookConfig =
  cfg_multiple :: bool
  cfg_freeSolo :: bool
  cfg_options :: "Primitive list"
  cfg_filterOptions :: "FilterOptions option"
  cfg_groupBy :: "GroupBy option"
  cfg_getOptionDisabled :: "GetOptionDisabled option"
  cfg_value :: FieldValue
  cfg_inputValue :: string
  cfg_onChange :: "FieldValue \<Rightarrow> Eff \<Rightarrow> Eff"
  cfg_onInputChange :: "string \<Rightarrow> Eff \<Rightarrow> Eff"
  cfg_open :: bool
  cfg_onOpen :: "Eff \<Rightarrow> Eff"
  cfg_onClose :: "Eff \<Rightarrow> Eff"
  cfg_disabled :: bool
  cfg_readOnly :: bool
  cfg_selectOnFocus :: "bool option"
  cfg_clearOnBlur :: "bool option"
  cfg_handleHomeEndKeys :: "bool option"

definition useAutocompleteConfig :: "Props \<Rightarrow> State \<Rightarrow> HookConfig" where
  "useAutocompleteConfig props rendered =
     \<lparr>cfg_multiple = multiple props,
      cfg_freeSolo = freeSolo props,
      cfg_options = options props,
      cfg_filterOptions = filterOptions props,
      cfg_groupBy = groupBy props,
      cfg_getOptionDisabled = None,
      cfg_value = hookValue (multiple props) (fieldValue props),
      cfg_inputValue = input rendered,
      cfg_onChange = onChange props,
      cfg_onInputChange = onInputChange props,
      cfg_open = popupOpen rendered,
      cfg_onOpen = onOpen props rendered,
      cfg_onClose = onClose props rendered,
      cfg_disabled = disabled props,
      cfg_readOnly = readOnly props,
      cfg_selectOnFocus = selectOnFocus props,
      cfg_clearOnBlur = clearOnBlur props,
      cfg_handleHomeEndKeys = handleHomeEndKeys props\<rparr>"

text \<open>
  What the component reads from the hook's result. The hook belongs to the library
  \<^verbatim>\<open>@mui/material\<close>; it is a parameter of the render function, and since it runs the
  caller's \<^verbatim>\<open>filterOptions\<close> and \<^verbatim>\<open>groupBy\<close> it may throw.
\<close>

record HookResult =
  groupedOptions :: "Primitive list"
  uaValue :: FieldValue
  focused :: bool

type_synonym Engine = "HookConfig \<Rightarrow> error + HookResult"

text \<open>
  Modelled from the spec: the selection-interaction engine is consumed by the repository,
  not implemented in it (section 4.2). Of its behaviour the spec fixes the commit pathway:
  a commit hands the new value to the configured \<^verbatim>\<open>onChange\<close>; in single-select mode
  the popup then goes from open to closed, which the engine requests through the
  configured \<^verbatim>\<open>onClose\<close>; in multi-select mode it makes no close request.
\<close>

definition commitSelection :: "HookConfig \<Rightarrow> FieldValue \<Rightarrow> Eff \<Rightarrow> Eff" where
  "commitSelection cfg newVal eff =
     (if cfg_multiple cfg then cfg_onChange cfg newVal eff
      else if cfg_open cfg then cfg_onClose cfg (cfg_onChange cfg newVal eff)
      else cfg_onChange cfg newVal eff)"

text \<open>
  Modelled from the spec: a pick from the list. An option that the predicate the engine
  was configured with marks as disabled is not selectable; any other option is committed,
  as the value itself in single-select mode and appended to the selection in multi-select
  mode (section 8: picking "Bridge" then "Road" gives \<^verbatim>\<open>["Bridge","Road"]\<close>).
\<close>

definition pickedValue :: "HookConfig \<Rightarrow> Primitive \<Rightarrow> FieldValue" where
  "pickedValue cfg opt =
     (if cfg_multiple cfg then
        (case cfg_value cfg of Array xs \<Rightarrow> Array (xs @ [opt]) | Scalar p \<Rightarrow> Array [opt]
         | Null \<Rightarrow> Array [opt])
      else Scalar opt)"

definition pickOption :: "HookConfig \<Rightarrow> Primitive \<Rightarrow> Eff \<Rightarrow> error + Eff" where
  "pickOption cfg opt eff =
     (case cfg_getOptionDisabled cfg of
        None \<Rightarrow> Inr (commitSelection cfg (pickedValue cfg opt) eff)
      | Some g \<Rightarrow>
          (case g opt of Inl e \<Rightarrow> Inl e
           | Inr d \<Rightarrow> Inr (if d then eff else commitSelection cfg (pickedValue cfg opt) eff)))"

text \<open>
  A click on a row of the listbox. The \<^verbatim>\<open>li\<close> spreads the hook's \<^verbatim>\<open>optionProps\<close> and
  adds \<^verbatim>\<open>onMouseEnter\<close>, \<^verbatim>\<open>onMouseLeave\<close>, \<^verbatim>\<open>style\<close>, \<^verbatim>\<open>aria-disabled\<close> and
  \<^verbatim>\<open>aria-selected\<close>; it has no \<^verbatim>\<open>onClick\<close> of its own, so the click is handled by the
  engine under the configuration of the current render.
\<close>

definition optionClick :: "Props \<Rightarrow> State \<Rightarrow> Primitive \<Rightarrow> Eff \<Rightarrow> error + Eff" where
  "optionClick props rendered opt eff = pickOption (useAutocompleteConfig props rendered) opt eff"

subsection \<open>The portal container\<close>

text \<open>
  The effect that runs when \<^verbatim>\<open>anchorEl\<close> changes. \<^verbatim>\<open>fg\<close> is
  \<^verbatim>\<open>cs?.getPropertyValue(A) || cs?.getPropertyValue(B)\<close>: the first value unless it is
  the empty string (or there is no computed style), else the second. An element is taken
  when \<^verbatim>\<open>fg && fg.trim() !== ""\<close>. The loop goes from the anchor up through
  \<^verbatim>\<open>parentElement\<close> until an element is taken or there is no parent.
\<close>

definition foreground :: "Document \<Rightarrow> Element \<Rightarrow> string option" where
  "foreground doc el =
     (if hasDefaultView doc then
        (let a = getPropertyValue (computedStyle el) ''--calcite-ui-foreground-1''
         in if a \<noteq> [] then Some a
            else Some (getPropertyValue (computedStyle el) ''--calcite-color-foreground-1''))
      else None)"

definition definesTheme :: "Document \<Rightarrow> Element \<Rightarrow> bool" where
  "definesTheme doc el =
     (case foreground doc el of None \<Rightarrow> False | Some fg \<Rightarrow> fg \<noteq> [] \<and> trim fg \<noteq> [])"

fun findThemed :: "Document \<Rightarrow> Element option \<Rightarrow> Element option" where
  "findThemed doc None = None"
| "findThemed doc (Some (Element i cs w par)) =
     (if definesTheme doc (Element i cs w par) then Some (Element i cs w par)
      else findThemed doc par)"

definition portalContainerEffect :: "Document \<Rightarrow> State \<Rightarrow> State" where
  "portalContainerEffect doc st =
     (case anchorEl st of
        None \<Rightarrow> st
      | Some a \<Rightarrow>
          st\<lparr>portalContainer :=
               Some (case findThemed doc (Some a) of None \<Rightarrow> body doc | Some found \<Rightarrow> found)\<rparr>)"

text \<open>The anchor and its ancestors, nearest first.\<close>

fun ancestorChain :: "Element option \<Rightarrow> Element list" where
  "ancestorChain None = []"
| "ancestorChain (Some (Element i cs w par)) = Element i cs w par # ancestorChain par"

subsection \<open>Rendering\<close>

text \<open>
  The element tree that the component returns, reduced to what it decides itself: which
  parts are present and the attributes it sets after the spread of the hook's props (a
  later attribute overrides a spread one, so \<^verbatim>\<open>aria-disabled\<close> on the root and on a row
  are the component's). A chip and a row show \<^verbatim>\<open>String(opt)\<close>; the view keeps \<open>opt\<close>.
\<close>

record Chip =
  chipOption :: Primitive
  chipRemoveButton :: bool

record Row =
  rowOption :: Primitive
  rowAriaDisabled :: bool
  rowAriaSelected :: bool
  rowHovered :: bool

record View =
  rootAriaDisabled :: bool
  labelRow :: "string option"
  inputWrapFocused :: bool
  chips :: "Chip list"
  inputValue :: string
  inputPlaceholder :: string
  inputDisabled :: bool
  inputAutoFocus :: bool
  clearButton :: bool
  popperOpen :: bool
  popperAnchorEl :: "Element option"
  popperContainer :: "Element option"
  listboxMaxHeightStyle :: int
  listboxWidthStyle :: "int option"
  rows :: "Row list"
  helper :: "string option"

definition readOnlyOrDisabled :: "Props \<Rightarrow> bool" where
  "readOnlyOrDisabled props = (disabled props \<or> readOnly props)"

text \<open>\<^verbatim>\<open>listboxWidth ?? anchorEl?.clientWidth\<close>; \<open>None\<close> is \<^verbatim>\<open>undefined\<close>, no width set.\<close>

definition computedListboxWidth :: "Props \<Rightarrow> State \<Rightarrow> int option" where
  "computedListboxWidth props st =
     (case listboxWidth props of
        Some w \<Rightarrow> Some w
      | None \<Rightarrow> (case anchorEl st of None \<Rightarrow> None | Some el \<Rightarrow> Some (clientWidth el)))"

text \<open>\<^verbatim>\<open>text && <div>text</div>\<close>: nothing for a missing or empty text.\<close>

definition optionalText :: "string option \<Rightarrow> string option" where
  "optionalText t = (case t of None \<Rightarrow> None | Some s \<Rightarrow> (if s = [] then None else Some s))"

text \<open>
  One chip per selected item when \<^verbatim>\<open>multiple && Array.isArray(uaValue) &&
  uaValue.length > 0\<close>; the removal button of a chip is under \<^verbatim>\<open>!readOnlyOrDisabled\<close>.
\<close>

definition renderChips :: "Props \<Rightarrow> FieldValue \<Rightarrow> Chip list" where
  "renderChips props ua =
     (if multiple props then
        (case ua of
           Array xs \<Rightarrow>
             map (\<lambda>opt. \<lparr>chipOption = opt, chipRemoveButton = (\<not> readOnlyOrDisabled props)\<rparr>) xs
         | Scalar p \<Rightarrow> []
         | Null \<Rightarrow> [])
      else [])"

text \<open>\<^verbatim>\<open>getOptionDisabled?.(opt) ?? false\<close>, called with no \<^verbatim>\<open>try\<close> around it.\<close>

definition disabledOpt :: "Props \<Rightarrow> Primitive \<Rightarrow> error + bool" where
  "disabledOpt props opt =
     (case getOptionDisabled props of None \<Rightarrow> Inr False | Some g \<Rightarrow> g opt)"

definition selected :: "Props \<Rightarrow> FieldValue \<Rightarrow> Primitive \<Rightarrow> bool" where
  "selected props ua opt =
     (if multiple props then
        (case ua of Array xs \<Rightarrow> opt \<in> set xs | Scalar p \<Rightarrow> False | Null \<Rightarrow> False)
      else ua = Scalar opt)"

text \<open>
  The \<^verbatim>\<open>map\<close> over \<^verbatim>\<open>groupedOptions\<close>, option by option with its index; the first
  throw of \<^verbatim>\<open>getOptionDisabled\<close> ends it.
\<close>

fun renderRows :: "Props \<Rightarrow> State \<Rightarrow> FieldValue \<Rightarrow> nat \<Rightarrow> Primitive list \<Rightarrow> error + Row list" where
  "renderRows props st ua index [] = Inr []"
| "renderRows props st ua index (opt # rest) =
     (case disabledOpt props opt of
        Inl e \<Rightarrow> Inl e
      | Inr d \<Rightarrow>
          (case renderRows props st ua (Suc index) rest of
             Inl e \<Rightarrow> Inl e
           | Inr rs \<Rightarrow>
               Inr (\<lparr>rowOption = opt, rowAriaDisabled = d,
                     rowAriaSelected = selected props ua opt,
                     rowHovered = (hoveredIndex st = Some index)\<rparr> # rs)))"

text \<open>
  The function component itself, for one render: the hook is called first, then the
  element tree is built. Nothing in the component catches.
\<close>

definition render :: "Engine \<Rightarrow> Props \<Rightarrow> State \<Rightarrow> error + View" where
  "render useAutocomplete props st =
     (case useAutocomplete (useAutocompleteConfig props st) of
        Inl e \<Rightarrow> Inl e
      | Inr hook \<Rightarrow>
          (case renderRows props st (uaValue hook) 0 (groupedOptions hook) of
             Inl e \<Rightarrow> Inl e
           | Inr rs \<Rightarrow>
               Inr \<lparr>rootAriaDisabled = readOnlyOrDisabled props,
                    labelRow = optionalText (label props),
                    inputWrapFocused = focused hook,
                    chips = renderChips props (uaValue hook),
                    inputValue = input st,
                    inputPlaceholder = placeholder props,
                    inputDisabled = readOnlyOrDisabled props,
                    inputAutoFocus = autoFocus props,
                    clearButton = (clearable props \<and> \<not> readOnlyOrDisabled props),
                    popperOpen = (popupOpen st \<and> groupedOptions hook \<noteq> []),
                    popperAnchorEl = anchorEl st,
                    popperContainer = portalContainer st,
                    listboxMaxHeightStyle = listboxMaxHeight props,
                    listboxWidthStyle = computedListboxWidth props st,
                    rows = rs,
                    helper = optionalText (helperText props)\<rparr>))"

subsection \<open>The hook at a pick\<close>

text \<open>
  The library's hook, which is not part of the repository, as far as two of the claims
  need it. Its \<^verbatim>\<open>resetInputValue\<close> decides on a new input text and, if that differs from
  the \<^verbatim>\<open>inputValue\<close> it was given, reports it through the configured \<^verbatim>\<open>onInputChange\<close>.
  For a value that holds a selected option the new text is the empty string in
  multi-select mode and \<^verbatim>\<open>getOptionLabel\<close> of the value, here \<^verbatim>\<open>String(option)\<close>, in
  single-select mode. The hook calls it at a pick and again from an effect when the
  \<^verbatim>\<open>value\<close> it is given has changed.
\<close>

definition resetInputValue :: "HookConfig \<Rightarrow> string \<Rightarrow> Eff \<Rightarrow> Eff" where
  "resetInputValue cfg optionLabel eff =
     (let newInputValue = (if cfg_multiple cfg then [] else optionLabel)
      in if cfg_inputValue cfg = newInputValue then eff
         else cfg_onInputChange cfg newInputValue eff)"

text \<open>
  The library's \<^verbatim>\<open>selectNewValue\<close>, a pick with no modifier key held: the input text is
  reset, the new value goes to the configured \<^verbatim>\<open>onChange\<close> unless it equals the current
  one, and then the hook asks for a close, through the configured \<^verbatim>\<open>onClose\<close> when the
  popup is open. It leaves the close out only under its option \<^verbatim>\<open>disableCloseOnSelect\<close>;
  the object literal passed by the component has no such key, in either mode.
\<close>

definition selectNewValue :: "HookConfig \<Rightarrow> FieldValue \<Rightarrow> string \<Rightarrow> Eff \<Rightarrow> Eff" where
  "selectNewValue cfg newValue optionLabel eff =
     (let eff1 = resetInputValue cfg optionLabel eff;
          eff2 = (if cfg_value cfg = newValue then eff1 else cfg_onChange cfg newValue eff1)
      in if cfg_open cfg then cfg_onClose cfg eff2 else eff2)"

text \<open>
  Two outcomes of the hook call of one render: the hook returns a given result, or the
  call throws.
\<close>

definition hookReturning :: "HookResult \<Rightarrow> Engine" where
  "hookReturning result cfg = Inr result"

definition hookThrowing :: "error \<Rightarrow> Engine" where
  "hookThrowing e cfg = Inl e"

subsection \<open>Initial props\<close>

text \<open>
  Props as \<^verbatim>\<open>getInitialProperties\<close> and the destructuring defaults give them (the label
  ends in an ellipsis, three bytes in UTF-8), with a host that supplies \<^verbatim>\<open>raiseEvent\<close>.
\<close>

definition initialProps :: Props where
  "initialProps =
     \<lparr>fieldValue = Null, hasRaiseEvent = True, disabled = False, options = [],
      multiple = False, freeSolo = False, openOnFocus = False, clearable = True,
      selectOnFocus = None, clearOnBlur = None, handleHomeEndKeys = None,
      filterOptions = None, getOptionDisabled = None, groupBy = None,
      placeholder = [], label = Some (''Select'' @ [CHR 0xE2, CHR 0x80, CHR 0xA6]), helperText = Some [],
      autoFocus = False, readOnly = False, listboxMaxHeight = 220, listboxWidth = None\<rparr>"

text \<open>Whether a host call is the \<^verbatim>\<open>change\<close> event.\<close>

fun isChangeEvent :: "HostCall \<Rightarrow> bool" where
  "isChangeEvent (RaiseEvent name payload) = (name = ''change'')"
| "isChangeEvent (SetValue v) = False"

subsection \<open>Example inputs\<close>

text \<open>
  A single-select field over three options, rendered open with some text typed.
\<close>

definition assetProps :: Props where
  "assetProps =
     initialProps\<lparr>options := [PString ''Bridge'', PString ''Road'', PString ''Tunnel'']\<rparr>"

definition typingState :: State where
  "typingState = initialState\<lparr>popupOpen := True, input := ''Ro''\<rparr>"

text \<open>
  What the hook returns for that field while "Ro" is typed and the popup is open: the one
  option that contains the text, no value yet, the input focused.
\<close>

definition roListed :: HookResult where
  "roListed = \<lparr>groupedOptions = [PString ''Road''], uaValue = Null, focused = True\<rparr>"

text \<open>
  A page: the body, inside it the application shell, which sets the Calcite foreground
  (with the leading blank that browsers used to keep in a custom property value), inside
  it a form, and inside that the input wrapper of the field.
\<close>

definition bodyEl :: Element where
  "bodyEl = Element 0 [] 1280 None"

definition shellEl :: Element where
  "shellEl = Element 1 [(''--calcite-ui-foreground-1'', '' #ffffff'')] 1280 (Some bodyEl)"

definition formEl :: Element where
  "formEl = Element 2 [] 400 (Some shellEl)"

definition wrapEl :: Element where
  "wrapEl = Element 3 [] 320 (Some formEl)"

definition page :: Document where
  "page = \<lparr>hasDefaultView = True, body = bodyEl\<rparr>"

text \<open>
  An input wrapper placed directly in the body whose own style has a blank
  \<^verbatim>\<open>--calcite-ui-foreground-1\<close> and a colour in \<^verbatim>\<open>--calcite-color-foreground-1\<close>.
\<close>

definition blankFirstEl :: Element where
  "blankFirstEl =
     Element 4 [(''--calcite-ui-foreground-1'', '' ''), (''--calcite-color-foreground-1'', ''#fff'')]
       320 (Some bodyEl)"

text \<open>
  A multi-select field with two items chosen, disabled by the host; and a single-select
  field whose caller marks "Road" as disabled.
\<close>

definition disabledMultiProps :: Props where
  "disabledMultiProps =
     assetProps\<lparr>multiple := True, disabled := True,
                 fieldValue := Array [PString ''Bridge'', PString ''Road'']\<rparr>"

text \<open>What the hook returns for the disabled field before any interaction.\<close>

definition twoChosen :: HookResult where
  "twoChosen =
     \<lparr>groupedOptions = [], uaValue = Array [PString ''Bridge'', PString ''Road''],
      focused = False\<rparr>"





definition roadDisabledProps :: Props where
  "roadDisabledProps =
     assetProps\<lparr>getOptionDisabled := Some (\<lambda>opt. Inr (opt = PString ''Road''))\<rparr>"

text \<open>A field whose \<^verbatim>\<open>getOptionDisabled\<close> throws on "Road", and one whose filter throws.\<close>

definition throwingDisabledProps :: Props where
  "throwingDisabledProps =
     assetProps\<lparr>getOptionDisabled :=
       Some (\<lambda>opt. if opt = PString ''Road'' then Inl (Thrown ''boom'') else Inr False)\<rparr>"

definition throwingFilterProps :: Props where
  "throwingFilterProps =
     assetProps\<lparr>filterOptions := Some (\<lambda>opts text. Inl (Thrown ''bad filter''))\<rparr>"

section \<open>Properties\<close>

subsection \<open>The value adapter\<close>

text \<open>
  Claim C1. For every field value (a primitive, an array of primitives, or null) and
  every setting of \<^verbatim>\<open>multiple\<close>, \<^verbatim>\<open>hookValue\<close> returns an array exactly when
  \<^verbatim>\<open>multiple\<close> is true and a scalar or null exactly when it is false. In single mode an
  array is narrowed to its first element (to null when it has none) and a scalar or null
  is kept; in multi mode a scalar is wrapped in a one-element array, null becomes the
  empty array and an array is kept.
\<close>

theorem hookValue_shape:
  "isArray (hookValue multi v) = multi
   \<and> isScalarOrNull (hookValue multi v) = (\<not> multi)
   \<and> hookValue False (Array (x # xs)) = Scalar x
   \<and> hookValue False (Array []) = Null
   \<and> hookValue False (Scalar p) = Scalar p
   \<and> hookValue False Null = Null
   \<and> hookValue True (Scalar p) = Array [p]
   \<and> hookValue True Null = Array []
   \<and> hookValue True (Array ys) = Array ys"
proof -
  have shape: "isArray (hookValue multi v) = multi"
    by (cases multi; cases v) (simp_all split: list.split)
  have other: "isScalarOrNull (hookValue multi v) = (\<not> multi)"
    by (cases multi; cases v) (simp_all split: list.split)
  from shape other show ?thesis by simp
qed

subsection \<open>Handlers\<close>

lemma emit_supplied:
  "hasRaiseEvent props \<Longrightarrow> emit props name payload eff = (fst eff, snd eff @ [RaiseEvent name payload])"
  by (simp add: emit_def)

text \<open>
  Claim C2. In every state, the click on the clear button calls the host's setter with the
  cleared value and then raises \<^verbatim>\<open>clear\<close> and, after it, \<^verbatim>\<open>change\<close>, both with the
  same cleared value: null when \<^verbatim>\<open>multiple\<close> is false, the empty array when it is true.
  These three are all the host calls the click makes. The host supplies \<^verbatim>\<open>raiseEvent\<close>
  (section 6 of the spec: on every render).
\<close>

theorem clearClick_clear_then_change:
  assumes "hasRaiseEvent props"
  shows "snd (clearClick props (st, calls)) =
           calls @ [SetValue (cleared props),
                    RaiseEvent ''clear'' (ValuePayload (cleared props)),
                    RaiseEvent ''change'' (ValuePayload (cleared props))]
         \<and> cleared props = (if multiple props then Array [] else Null)"
  using assms by (simp add: clearClick_def emit_supplied setInput_def setValue_def cleared_def)

theorem clearClick_clear_then_change_witness:
  "hasRaiseEvent initialProps
   \<and> snd (clearClick initialProps (initialState, [])) =
       [SetValue Null, RaiseEvent ''clear'' (ValuePayload Null),
        RaiseEvent ''change'' (ValuePayload Null)]
   \<and> snd (clearClick (initialProps\<lparr>multiple := True\<rparr>) (initialState, [])) =
       [SetValue (Array []), RaiseEvent ''clear'' (ValuePayload (Array [])),
        RaiseEvent ''change'' (ValuePayload (Array []))]"
  using clearClick_clear_then_change [of initialProps initialState "[]"]
    clearClick_clear_then_change [of "initialProps\<lparr>multiple := True\<rparr>" initialState "[]"]
  by (simp add: initialProps_def)





text \<open>
  In single-select mode a pick leaves the same state under the library's
  \<^verbatim>\<open>selectNewValue\<close> as under the commit pathway of the spec.
\<close>

lemma selectNewValue_single_state:
  assumes "\<not> multiple props" and "hookValue False (fieldValue props) \<noteq> Scalar opt"
  shows "fst (selectNewValue (useAutocompleteConfig props st) (Scalar opt) optionLabel (st, []))
         = fst (commitSelection (useAutocompleteConfig props st) (Scalar opt) (st, []))"
  using assms
  by (simp add: selectNewValue_def resetInputValue_def commitSelection_def
      useAutocompleteConfig_def Let_def onChange_def onInputChange_def onClose_def emit_def
      setInput_def setOpen_def setValue_def)







text \<open>
  Claim C4. In single-select mode, a commit of an option (the engine calls \<^verbatim>\<open>onChange\<close>
  with the option and then, when the popup is open, \<^verbatim>\<open>onClose\<close>) leaves the popup
  closed and raises exactly one \<^verbatim>\<open>change\<close> event, whose value is the option. The host
  calls are, in order, \<^verbatim>\<open>setValue\<close> with the option, \<^verbatim>\<open>change\<close>, and \<^verbatim>\<open>close\<close> if the
  popup was open.
\<close>

theorem commit_single_closes_and_changes_once:
  assumes "\<not> multiple props" and "hasRaiseEvent props"
  shows "popupOpen (fst (commitSelection (useAutocompleteConfig props st) (Scalar opt) (st, [])))
           = False
         \<and> filter isChangeEvent
             (snd (commitSelection (useAutocompleteConfig props st) (Scalar opt) (st, [])))
           = [RaiseEvent ''change'' (ValuePayload (Scalar opt))]
         \<and> snd (commitSelection (useAutocompleteConfig props st) (Scalar opt) (st, []))
           = [SetValue (Scalar opt), RaiseEvent ''change'' (ValuePayload (Scalar opt))]
             @ (if popupOpen st then [RaiseEvent ''close'' (InputPayload (input st))] else [])"
  using assms
  by (simp add: commitSelection_def useAutocompleteConfig_def onChange_def onClose_def
      Let_def emit_supplied setInput_def setOpen_def setValue_def)

theorem commit_single_closes_and_changes_once_witness:
  "\<not> multiple assetProps \<and> hasRaiseEvent assetProps \<and> popupOpen typingState
   \<and> \<not> popupOpen (fst (commitSelection (useAutocompleteConfig assetProps typingState)
                          (Scalar (PString ''Road'')) (typingState, [])))
   \<and> snd (commitSelection (useAutocompleteConfig assetProps typingState)
            (Scalar (PString ''Road'')) (typingState, []))
       = [SetValue (Scalar (PString ''Road'')),
          RaiseEvent ''change'' (ValuePayload (Scalar (PString ''Road''))),
          RaiseEvent ''close'' (InputPayload ''Ro'')]"
  using commit_single_closes_and_changes_once [of assetProps typingState "PString ''Road''"]
  by (simp add: assetProps_def initialProps_def typingState_def initialState_def)

subsection \<open>Rendering\<close>

text \<open>
  Claim C6. In every render the width set on the listbox is the \<^verbatim>\<open>listboxWidth\<close> prop
  when one is supplied, and otherwise the \<^verbatim>\<open>clientWidth\<close> of the anchor, the input
  wrapper; while no anchor is mounted and no override is given, no width is set.
\<close>

theorem listbox_width_override_or_anchor:
  assumes "render useAutocomplete props st = Inr v"
  shows "(listboxWidth props = Some w \<longrightarrow> listboxWidthStyle v = Some w)
         \<and> (listboxWidth props = None \<and> anchorEl st = Some el
              \<longrightarrow> listboxWidthStyle v = Some (clientWidth el))
         \<and> (listboxWidth props = None \<and> anchorEl st = None \<longrightarrow> listboxWidthStyle v = None)"
  using assms
  by (auto simp: render_def computedListboxWidth_def split: sum.splits)


theorem listbox_width_override_or_anchor_witness:
  "(\<exists>v. render (hookReturning roListed) (assetProps\<lparr>listboxWidth := Some 0\<rparr>)
             (typingState\<lparr>anchorEl := Some wrapEl\<rparr>) = Inr v
          \<and> listboxWidthStyle v = Some 0)
   \<and> (\<exists>v. render (hookReturning roListed) assetProps (typingState\<lparr>anchorEl := Some wrapEl\<rparr>) = Inr v
          \<and> listboxWidthStyle v = Some 320)
   \<and> (\<exists>v. render (hookReturning roListed) assetProps typingState = Inr v \<and> listboxWidthStyle v = None)"
proof -
  let ?over = "assetProps\<lparr>listboxWidth := Some 0\<rparr>"
  let ?anchored = "typingState\<lparr>anchorEl := Some wrapEl\<rparr>"
  obtain v1 where v1: "render (hookReturning roListed) ?over ?anchored = Inr v1"
    by (simp add: render_def hookReturning_def roListed_def assetProps_def
        initialProps_def disabledOpt_def)
  obtain v2 where v2: "render (hookReturning roListed) assetProps ?anchored = Inr v2"
    by (simp add: render_def hookReturning_def roListed_def assetProps_def
        initialProps_def disabledOpt_def)
  obtain v3 where v3: "render (hookReturning roListed) assetProps typingState = Inr v3"
    by (simp add: render_def hookReturning_def roListed_def assetProps_def
        initialProps_def disabledOpt_def)
  have "listboxWidthStyle v1 = Some 0"
    using listbox_width_override_or_anchor [OF v1, of 0 wrapEl]
    by (simp add: assetProps_def initialProps_def)
  moreover have "listboxWidthStyle v2 = Some 320"
    using listbox_width_override_or_anchor [OF v2, of 0 wrapEl]
    by (simp add: assetProps_def initialProps_def typingState_def initialState_def wrapEl_def)
  moreover have "listboxWidthStyle v3 = None"
    using listbox_width_override_or_anchor [OF v3, of 0 wrapEl]
    by (simp add: assetProps_def initialProps_def typingState_def initialState_def)
  ultimately show ?thesis using v1 v2 v3 by simp
qed

text \<open>
  Claim C8. Whenever \<^verbatim>\<open>disabled\<close> or \<^verbatim>\<open>readOnly\<close> is true, a render has no clear
  button, no chip has a removal button, and the root element carries
  \<^verbatim>\<open>aria-disabled\<close> true.
\<close>

theorem disabled_or_readOnly_suppresses_controls:
  assumes "render useAutocomplete props st = Inr v"
    and "disabled props \<or> readOnly props"
  shows "\<not> clearButton v \<and> (\<forall>c \<in> set (chips v). \<not> chipRemoveButton c) \<and> rootAriaDisabled v"
  using assms
  by (auto simp: render_def renderChips_def readOnlyOrDisabled_def
      split: sum.splits if_splits FieldValue.splits)

theorem disabled_or_readOnly_suppresses_controls_witness:
  "disabled disabledMultiProps
   \<and> (\<exists>v. render (hookReturning twoChosen) disabledMultiProps initialState = Inr v
          \<and> map chipOption (chips v) = [PString ''Bridge'', PString ''Road'']
          \<and> \<not> clearButton v \<and> map chipRemoveButton (chips v) = [False, False]
          \<and> rootAriaDisabled v)"
proof -
  obtain v where v: "render (hookReturning twoChosen) disabledMultiProps initialState = Inr v"
    by (simp add: render_def hookReturning_def twoChosen_def)
  have d: "disabled disabledMultiProps \<or> readOnly disabledMultiProps"
    by (simp add: disabledMultiProps_def)
  have c: "map chipOption (chips v) = [PString ''Bridge'', PString ''Road'']"
    using v
    by (auto simp: render_def hookReturning_def twoChosen_def disabledMultiProps_def
        renderChips_def)
  have len: "length (chips v) = Suc (Suc 0)"
    using arg_cong [OF c, of length] by simp
  from disabled_or_readOnly_suppresses_controls [OF v d]
  have off: "\<not> clearButton v" "\<forall>c \<in> set (chips v). \<not> chipRemoveButton c" "rootAriaDisabled v"
    by simp_all
  from len obtain a b where ab: "chips v = [a, b]"
    by (auto simp: length_Suc_conv)
  with off(2) have "map chipRemoveButton (chips v) = [False, False]" by simp
  with off v c show ?thesis
    by (simp add: disabledMultiProps_def)
qed


subsection \<open>Caller-supplied functions\<close>

lemma renderRows_throw:
  "find (\<lambda>opt. isl (disabledOpt props opt)) opts = Some bad
   \<Longrightarrow> renderRows props st ua index opts = Inl (projl (disabledOpt props bad))"
proof (induction opts arbitrary: index)
  case Nil
  then show ?case by simp
next
  case (Cons opt rest)
  show ?case
  proof (cases "disabledOpt props opt")
    case (Inl e)
    with Cons.prems show ?thesis by simp
  next
    case (Inr d)
    with Cons.prems have "find (\<lambda>opt. isl (disabledOpt props opt)) rest = Some bad"
      by simp
    from Cons.IH [OF this] Inr show ?thesis by simp
  qed
qed

text \<open>
  Claim C9. The caller's \<^verbatim>\<open>filterOptions\<close> and \<^verbatim>\<open>groupBy\<close> reach the hook as they were
  given, and a throw out of the hook call leaves the render with that same thrown value;
  the caller's \<^verbatim>\<open>getOptionDisabled\<close> is called on the listed options in order, and its
  first throw leaves the render with that thrown value. In neither case does the render
  produce an element tree.
\<close>

theorem caller_function_throw_propagates:
  "cfg_filterOptions (useAutocompleteConfig props st) = filterOptions props
   \<and> cfg_groupBy (useAutocompleteConfig props st) = groupBy props
   \<and> (useAutocomplete (useAutocompleteConfig props st) = Inl e
        \<longrightarrow> render useAutocomplete props st = Inl e)
   \<and> (useAutocomplete (useAutocompleteConfig props st) = Inr hook
        \<and> getOptionDisabled props = Some g
        \<and> find (\<lambda>opt. isl (g opt)) (groupedOptions hook) = Some bad
        \<longrightarrow> render useAutocomplete props st = Inl (projl (g bad)))"
proof -
  have pass: "cfg_filterOptions (useAutocompleteConfig props st) = filterOptions props"
    "cfg_groupBy (useAutocompleteConfig props st) = groupBy props"
    by (simp_all add: useAutocompleteConfig_def)
  have hook_throw: "render useAutocomplete props st = Inl e"
    if "useAutocomplete (useAutocompleteConfig props st) = Inl e"
    using that by (simp add: render_def)
  have pred_throw: "render useAutocomplete props st = Inl (projl (g bad))"
    if h: "useAutocomplete (useAutocompleteConfig props st) = Inr hook"
      and g: "getOptionDisabled props = Some g"
      and f: "find (\<lambda>opt. isl (g opt)) (groupedOptions hook) = Some bad"
  proof -
    from g have same: "disabledOpt props = g"
      by (simp add: disabledOpt_def fun_eq_iff)
    from f same
    have "find (\<lambda>opt. isl (disabledOpt props opt)) (groupedOptions hook) = Some bad"
      by simp
    from renderRows_throw [OF this, of st "uaValue hook" 0] h same show ?thesis
      by (simp add: render_def)
  qed
  from pass hook_throw pred_throw show ?thesis by blast
qed

theorem caller_function_throw_propagates_witness:
  "map_option (\<lambda>f. f (options throwingFilterProps) ''Ro'')
      (cfg_filterOptions (useAutocompleteConfig throwingFilterProps typingState))
     = Some (Inl (Thrown ''bad filter''))
   \<and> render (hookThrowing (Thrown ''bad filter'')) throwingFilterProps typingState
       = Inl (Thrown ''bad filter'')
   \<and> render (hookReturning roListed) throwingDisabledProps typingState = Inl (Thrown ''boom'')"
proof -
  let ?g = "\<lambda>opt. if opt = PString ''Road'' then Inl (Thrown ''boom'') else Inr False"
  have a: "hookThrowing (Thrown ''bad filter'')
             (useAutocompleteConfig throwingFilterProps typingState)
           = Inl (Thrown ''bad filter'')"
    by (simp add: hookThrowing_def)
  have b: "hookReturning roListed (useAutocompleteConfig throwingDisabledProps typingState)
           = Inr roListed"
    by (simp add: hookReturning_def)
  have c: "getOptionDisabled throwingDisabledProps = Some ?g"
    by (simp add: throwingDisabledProps_def)
  have d: "find (\<lambda>opt. isl (?g opt)) (groupedOptions roListed) = Some (PString ''Road'')"
    by (simp add: roListed_def)
  from caller_function_throw_propagates
         [of throwingFilterProps typingState "hookThrowing (Thrown ''bad filter'')"
             "Thrown ''bad filter''"] a
  have first: "map_option (\<lambda>f. f (options throwingFilterProps) ''Ro'')
                 (cfg_filterOptions (useAutocompleteConfig throwingFilterProps typingState))
               = Some (Inl (Thrown ''bad filter''))"
    and second: "render (hookThrowing (Thrown ''bad filter'')) throwingFilterProps typingState
                 = Inl (Thrown ''bad filter'')"
    by (simp_all add: throwingFilterProps_def)
  from caller_function_throw_propagates
         [of throwingDisabledProps typingState "hookReturning roListed" _ roListed ?g
             "PString ''Road''"] b c d
  have "render (hookReturning roListed) throwingDisabledProps typingState = Inl (Thrown ''boom'')"
    by simp
  with first second show ?thesis by simp
qed


subsection \<open>Disabled options\<close>

lemma config_ignores_getOptionDisabled:
  "useAutocompleteConfig (props\<lparr>getOptionDisabled := g\<rparr>) st = useAutocompleteConfig props st"
  by (simp add: useAutocompleteConfig_def onChange_def onInputChange_def onOpen_def
      onClose_def emit_def fun_eq_iff)

lemma optionClick_ignores_getOptionDisabled:
  "optionClick (props\<lparr>getOptionDisabled := g\<rparr>) st opt eff = optionClick props st opt eff"
  by (simp add: optionClick_def config_ignores_getOptionDisabled)

text \<open>
  Claim C3. An option for which the caller's \<^verbatim>\<open>getOptionDisabled\<close> returns true should
  never produce a \<^verbatim>\<open>change\<close> event when clicked. The component does not give the
  predicate to the hook and puts no click guard on a row: with "Road" disabled by the
  caller, the row of "Road" is rendered with \<^verbatim>\<open>aria-disabled\<close> true, the hook's
  configuration has no disabling predicate, and a click on that row sets the value to
  "Road" and raises \<^verbatim>\<open>change\<close> with it.
\<close>

theorem disabled_option_click_raises_change:
  "disabledOpt roadDisabledProps (PString ''Road'') = Inr True
   \<and> (\<exists>v. render (hookReturning roListed) roadDisabledProps typingState = Inr v
          \<and> map rowOption (rows v) = [PString ''Road'']
          \<and> map rowAriaDisabled (rows v) = [True])
   \<and> cfg_getOptionDisabled (useAutocompleteConfig roadDisabledProps typingState) = None
   \<and> map_sum id snd (optionClick roadDisabledProps typingState (PString ''Road'') (typingState, []))
       = Inr [SetValue (Scalar (PString ''Road'')),
              RaiseEvent ''change'' (ValuePayload (Scalar (PString ''Road''))),
              RaiseEvent ''close'' (InputPayload ''Ro'')]"
proof -
  have a: "disabledOpt roadDisabledProps (PString ''Road'') = Inr True"
    by (simp add: disabledOpt_def roadDisabledProps_def)
  have b: "\<exists>v. render (hookReturning roListed) roadDisabledProps typingState = Inr v
          \<and> map rowOption (rows v) = [PString ''Road'']
          \<and> map rowAriaDisabled (rows v) = [True]"
    by (simp add: render_def hookReturning_def roListed_def roadDisabledProps_def
        disabledOpt_def)
  have c: "cfg_getOptionDisabled (useAutocompleteConfig roadDisabledProps typingState) = None"
    by (simp add: useAutocompleteConfig_def)
  have d: "map_sum id snd
             (optionClick roadDisabledProps typingState (PString ''Road'') (typingState, []))
           = Inr [SetValue (Scalar (PString ''Road'')),
                  RaiseEvent ''change'' (ValuePayload (Scalar (PString ''Road''))),
                  RaiseEvent ''close'' (InputPayload ''Ro'')]"
    by (simp add: optionClick_def pickOption_def pickedValue_def commitSelection_def
        useAutocompleteConfig_def onChange_def onClose_def Let_def emit_def setInput_def
        setOpen_def setValue_def roadDisabledProps_def assetProps_def initialProps_def
        typingState_def initialState_def)
  from a b c d show ?thesis by simp
qed

subsection \<open>The portal container\<close>

lemma trim_empty_iff: "trim s = [] \<longleftrightarrow> (\<forall>c \<in> set s. isWhiteSpace c)"
proof
  assume empty: "trim s = []"
  show "\<forall>c \<in> set s. isWhiteSpace c"
  proof (cases "dropWhile isWhiteSpace s = []")
    case True
    then show ?thesis by simp
  next
    case False
    then have "\<not> isWhiteSpace (hd (dropWhile isWhiteSpace s))"
      by (rule hd_dropWhile)
    moreover from False have "hd (dropWhile isWhiteSpace s) \<in> set (dropWhile isWhiteSpace s)"
      by simp
    moreover from empty have "\<forall>c \<in> set (dropWhile isWhiteSpace s). isWhiteSpace c"
      by (simp add: trim_def)
    ultimately show ?thesis by blast
  qed
next
  assume "\<forall>c \<in> set s. isWhiteSpace c"
  then show "trim s = []" by (auto simp: trim_def dest: set_dropWhileD)
qed

lemma findThemed_find: "findThemed doc e = find (definesTheme doc) (ancestorChain e)"
  by (induction doc e rule: findThemed.induct) simp_all

lemma definesTheme_iff:
  "definesTheme doc el =
     (hasDefaultView doc
      \<and> (if getPropertyValue (computedStyle el) ''--calcite-ui-foreground-1'' \<noteq> []
         then \<exists>c \<in> set (getPropertyValue (computedStyle el) ''--calcite-ui-foreground-1'').
                \<not> isWhiteSpace c
         else \<exists>c \<in> set (getPropertyValue (computedStyle el) ''--calcite-color-foreground-1'').
                \<not> isWhiteSpace c))"
  by (auto simp: definesTheme_def foreground_def Let_def trim_empty_iff)

text \<open>
  Claim C7, as the code has it. When the anchor changes to an element, the portal
  container becomes the nearest element, going from the anchor itself up through its
  ancestors, that defines the theme, and the document's body when there is none. An
  element defines the theme when the document has a view and the value of
  \<^verbatim>\<open>--calcite-ui-foreground-1\<close>, or the value of \<^verbatim>\<open>--calcite-color-foreground-1\<close> when
  the former is the empty string, has a character that is not white space. A first
  property that is set to white space only is not backed up by the second.
\<close>

theorem portalContainer_nearest_themed:
  assumes "anchorEl st = Some anchor"
  shows "portalContainer (portalContainerEffect doc st) =
           Some (case find (definesTheme doc) (ancestorChain (Some anchor)) of
                   None \<Rightarrow> body doc
                 | Some el \<Rightarrow> el)
         \<and> definesTheme doc el =
             (hasDefaultView doc
              \<and> (if getPropertyValue (computedStyle el) ''--calcite-ui-foreground-1'' \<noteq> []
                 then \<exists>c \<in> set (getPropertyValue (computedStyle el) ''--calcite-ui-foreground-1'').
                        \<not> isWhiteSpace c
                 else \<exists>c \<in> set (getPropertyValue (computedStyle el) ''--calcite-color-foreground-1'').
                        \<not> isWhiteSpace c))"
proof -
  from assms
  have "portalContainer (portalContainerEffect doc st) =
          Some (case find (definesTheme doc) (ancestorChain (Some anchor)) of
                  None \<Rightarrow> body doc
                | Some el \<Rightarrow> el)"
    by (simp add: portalContainerEffect_def findThemed_find)
  with definesTheme_iff [of doc el] show ?thesis by simp
qed


lemmas page_defs =
  page_def bodyEl_def shellEl_def formEl_def wrapEl_def blankFirstEl_def initialState_def

lemmas theme_defs =
  definesTheme_def foreground_def getPropertyValue_def trim_def isWhiteSpace_def Let_def

theorem portalContainer_nearest_themed_witness:
  "anchorEl (initialState\<lparr>anchorEl := Some wrapEl\<rparr>) = Some wrapEl
   \<and> ancestorChain (Some wrapEl) = [wrapEl, formEl, shellEl, bodyEl]
   \<and> portalContainer (portalContainerEffect page (initialState\<lparr>anchorEl := Some wrapEl\<rparr>))
       = Some shellEl
   \<and> portalContainer (portalContainerEffect page (initialState\<lparr>anchorEl := Some formEl\<rparr>))
       = Some shellEl
   \<and> portalContainer (portalContainerEffect page (initialState\<lparr>anchorEl := Some bodyEl\<rparr>))
       = Some bodyEl
   \<and> portalContainer
         (portalContainerEffect (page\<lparr>hasDefaultView := False\<rparr>)
            (initialState\<lparr>anchorEl := Some wrapEl\<rparr>))
       = Some bodyEl"
proof -
  have chain: "ancestorChain (Some wrapEl) = [wrapEl, formEl, shellEl, bodyEl]"
    by (simp add: page_defs)
  have a: "portalContainer (portalContainerEffect page (initialState\<lparr>anchorEl := Some wrapEl\<rparr>))
             = Some shellEl"
    using portalContainer_nearest_themed
            [of "initialState\<lparr>anchorEl := Some wrapEl\<rparr>" wrapEl page wrapEl]
    by (simp add: page_defs theme_defs)
  have b: "portalContainer (portalContainerEffect page (initialState\<lparr>anchorEl := Some formEl\<rparr>))
             = Some shellEl"
    using portalContainer_nearest_themed
            [of "initialState\<lparr>anchorEl := Some formEl\<rparr>" formEl page formEl]
    by (simp add: page_defs theme_defs)
  have c: "portalContainer (portalContainerEffect page (initialState\<lparr>anchorEl := Some bodyEl\<rparr>))
             = Some bodyEl"
    using portalContainer_nearest_themed
            [of "initialState\<lparr>anchorEl := Some bodyEl\<rparr>" bodyEl page bodyEl]
    by (simp add: page_defs theme_defs)
  have d: "portalContainer
             (portalContainerEffect (page\<lparr>hasDefaultView := False\<rparr>)
                (initialState\<lparr>anchorEl := Some wrapEl\<rparr>))
           = Some bodyEl"
    using portalContainer_nearest_themed
            [of "initialState\<lparr>anchorEl := Some wrapEl\<rparr>" wrapEl
                "page\<lparr>hasDefaultView := False\<rparr>" wrapEl]
    by (simp add: page_defs theme_defs)
  from chain a b c d show ?thesis by simp
qed

text \<open>
  Claim C7 as the spec words it fails where the first property is blank: the input
  wrapper \<open>blankFirstEl\<close> has a colour in \<^verbatim>\<open>--calcite-color-foreground-1\<close>, so it is the
  nearest element with a non-empty theming property, yet the portal container becomes the
  body.
\<close>

theorem portalContainer_blank_first_counterexample:
  "getPropertyValue (computedStyle blankFirstEl) ''--calcite-color-foreground-1'' = ''#fff''
   \<and> getPropertyValue (computedStyle blankFirstEl) ''--calcite-ui-foreground-1'' = '' ''
   \<and> portalContainer
         (portalContainerEffect page (initialState\<lparr>anchorEl := Some blankFirstEl\<rparr>))
       = Some (body page)
   \<and> body page \<noteq> blankFirstEl"
  by (simp add: portalContainerEffect_def page_defs theme_defs)


end
